theory Spec2Isabelle
  imports Main "HOL-Library.Word"
begin

section \<open>Values of the parsed response\<close>

text \<open>
  \<^verbatim>\<open>json.load\<close> yields Python objects: \<^verbatim>\<open>None\<close>, booleans, integers, floats, strings,
  lists and dictionaries with string keys. A float is kept as its IEEE-754 bit pattern,
  a string as the list of its characters, a dictionary as the list of its items (a
  parsed dictionary has each key once; \<open>map_of\<close> looks a key up).
\<close>

datatype pyval =
    PNone
  | PBool bool
  | PInt int
  | PFloat "64 word"
  | PStr string
  | PList "pyval list"
  | PDict "(string \<times> pyval) list"

text \<open>Python's truth value of an object, as \<^verbatim>\<open>if x\<close> and \<^verbatim>\<open>not x\<close> test it.\<close>

fun truthy :: "pyval \<Rightarrow> bool" where
  "truthy PNone = False"
| "truthy (PBool b) = b"
| "truthy (PInt i) = (i \<noteq> 0)"
| "truthy (PFloat w) = (take_bit 63 w \<noteq> 0)"
| "truthy (PStr s) = (s \<noteq> [])"
| "truthy (PList xs) = (xs \<noteq> [])"
| "truthy (PDict d) = (d \<noteq> [])"

text \<open>\<^verbatim>\<open>d.get(k, default)\<close>; \<^verbatim>\<open>d.get(k)\<close> is \<^verbatim>\<open>d.get(k, None)\<close>.\<close>

definition dict_get :: "(string \<times> pyval) list \<Rightarrow> string \<Rightarrow> pyval \<Rightarrow> pyval" where
  "dict_get d k dflt = (case map_of d k of None \<Rightarrow> dflt | Some v \<Rightarrow> v)"

section \<open>Errors, log records, requests and the process state\<close>

text \<open>
  The two \<^verbatim>\<open>RuntimeError\<close>s of \<^verbatim>\<open>main\<close> are told apart by their message: the one of
  line 99 has a fixed text, the one of lines 106-109 is an f-string that interpolates
  \<^verbatim>\<open>SUPPORTED_MODELS\<close> and \<^verbatim>\<open>available\<close>; the message keeps the two interpolated lists.
\<close>

datatype runtime_message =
    KeyNotDefined
  | NoneAvailable "string list" "pyval list"

text \<open>
  \<^verbatim>\<open>HTTPError\<close> carries its status code, its reason and the body of the response when
  there is one (\<^verbatim>\<open>exc.fp\<close>); \<^verbatim>\<open>URLError\<close> its reason. \<^verbatim>\<open>JSONDecodeError\<close> is what
  \<^verbatim>\<open>json.load\<close> raises on a malformed body, \<^verbatim>\<open>AttributeError\<close> what \<^verbatim>\<open>data.get\<close> raises
  when the payload is not a dictionary, \<^verbatim>\<open>TypeError\<close> what iterating a non-iterable raises,
  \<^verbatim>\<open>ValueError\<close> what a store into \<^verbatim>\<open>os.environ\<close> raises on a value it cannot hold.
\<close>

datatype error =
    RuntimeError runtime_message
  | HTTPError nat string "string option"
  | URLError string
  | JSONDecodeError
  | AttributeError
  | TypeError
  | ValueError

datatype http_message = Body string | StrExc nat string

datatype level = INFO | ERROR

text \<open>One constructor for each logging call of the source, with the call's arguments.\<close>

datatype log_message =
    LogHttpError nat http_message       \<comment> \<open>line 57\<close>
  | LogNetworkError string              \<comment> \<open>line 61\<close>
  | LogModelsFetched "pyval list"       \<comment> \<open>line 70\<close>
  | LogCompatibleFound string           \<comment> \<open>line 78\<close>
  | LogAlreadySet "string option"       \<comment> \<open>line 88\<close>
  | LogUpdated string                   \<comment> \<open>line 92\<close>
  | LogFetching                         \<comment> \<open>line 101\<close>
  | LogSelected                         \<comment> \<open>line 112\<close>
  | LogFailure error                    \<comment> \<open>line 119\<close>

record request =
  req_url :: string
  req_headers :: "(string \<times> string) list"
  req_method :: string

text \<open>What \<^verbatim>\<open>urlopen\<close> followed by \<^verbatim>\<open>json.load\<close> does with a request.\<close>

datatype response =
    RaisesHTTPError nat string "string option"
  | RaisesURLError string
  | Malformed
  | Parsed pyval

text \<open>
  The state a run reads and writes: the process environment (\<^verbatim>\<open>os.environ\<close>), the
  records the logger has emitted and the requests sent to the network, oldest first.
\<close>

record state =
  environ :: "string \<rightharpoonup> string"
  logged :: "(level \<times> log_message) list"
  requests :: "request list"

definition logger_info :: "log_message \<Rightarrow> state \<Rightarrow> state" where
  "logger_info m s = s\<lparr>logged := logged s @ [(INFO, m)]\<rparr>"

definition logger_error :: "log_message \<Rightarrow> state \<Rightarrow> state" where
  "logger_error m s = s\<lparr>logged := logged s @ [(ERROR, m)]\<rparr>"

text \<open>\<^verbatim>\<open>logger.exception\<close> logs at level ERROR.\<close>

definition logger_exception :: "log_message \<Rightarrow> state \<Rightarrow> state" where
  "logger_exception m s = s\<lparr>logged := logged s @ [(ERROR, m)]\<rparr>"

section \<open>The constants of the module\<close>

definition SUPPORTED_MODELS :: "string list" where
  "SUPPORTED_MODELS =
     [''llama-3.3-70b-versatile'', ''llama-3.1-8b-instant'', ''qwen/qwen3-32b'']"

definition GROQ_API_URL :: string where
  "GROQ_API_URL = ''https://api.groq.com/openai/v1/models''"

section \<open>fetch_available_models\<close>

text \<open>
  Iterating an object in a comprehension: a list gives its elements, a string its
  characters (strings of length one), a dictionary its keys; the other values are not
  iterable.
\<close>

fun py_iter :: "pyval \<Rightarrow> error + pyval list" where
  "py_iter (PList xs) = Inr xs"
| "py_iter (PStr s) = Inr (map (\<lambda>c. PStr [c]) s)"
| "py_iter (PDict d) = Inr (map (\<lambda>kv. PStr (fst kv)) d)"
| "py_iter _ = Inl TypeError"

text \<open>
  One entry of the comprehension of lines 64-68: the value \<^verbatim>\<open>model.get("id")\<close> when
  \<^verbatim>\<open>isinstance(model, dict) and model.get("id")\<close> holds, nothing otherwise.
\<close>

fun model_id :: "pyval \<Rightarrow> pyval option" where
  "model_id (PDict d) =
     (if truthy (dict_get d ''id'' PNone) then Some (dict_get d ''id'' PNone) else None)"
| "model_id _ = None"

text \<open>Lines 64-68 on the parsed payload \<^verbatim>\<open>data\<close>.\<close>

fun extract_models :: "pyval \<Rightarrow> error + pyval list" where
  "extract_models (PDict d) =
     (case py_iter (dict_get d ''data'' (PList [])) of
        Inl e \<Rightarrow> Inl e
      | Inr entries \<Rightarrow> Inr (List.map_filter model_id entries))"
| "extract_models _ = Inl AttributeError"

definition build_request :: "string \<Rightarrow> request" where
  "build_request api_key =
     \<lparr>req_url = GROQ_API_URL,
      req_headers = [(''Authorization'', ''Bearer '' @ api_key),
                     (''Content-Type'', ''application/json'')],
      req_method = ''GET''\<rparr>"

text \<open>
  The network is a parameter: \<open>urlopen\<close> says what the endpoint answers to a request.
  Every call of the function sends the request first, whatever comes back.
\<close>

definition fetch_available_models ::
  "(request \<Rightarrow> response) \<Rightarrow> string \<Rightarrow> state \<Rightarrow> (error + pyval list) \<times> state" where
  "fetch_available_models urlopen api_key s =
     (let request = build_request api_key;
          s1 = s\<lparr>requests := requests s @ [request]\<rparr>
      in case urlopen request of
           RaisesHTTPError code reason fp \<Rightarrow>
             (Inl (HTTPError code reason fp),
              logger_error
                (LogHttpError code
                   (case fp of Some body \<Rightarrow> Body body | None \<Rightarrow> StrExc code reason)) s1)
         | RaisesURLError reason \<Rightarrow>
             (Inl (URLError reason), logger_error (LogNetworkError reason) s1)
         | Malformed \<Rightarrow> (Inl JSONDecodeError, s1)
         | Parsed data \<Rightarrow>
             (case extract_models data of
                Inl e \<Rightarrow> (Inl e, s1)
              | Inr models \<Rightarrow> (Inr models, logger_info (LogModelsFetched models) s1)))"

section \<open>select_compatible_model\<close>

text \<open>
  The loop of lines 76-80 over a preference list: \<^verbatim>\<open>model in available\<close> compares the
  string with every element of the list, and a string equals no value of another type.
\<close>

fun select_loop :: "string list \<Rightarrow> pyval list \<Rightarrow> state \<Rightarrow> string option \<times> state" where
  "select_loop [] available s = (None, s)"
| "select_loop (model # rest) available s =
     (if PStr model \<in> set available
      then (Some model, logger_info (LogCompatibleFound model) s)
      else select_loop rest available s)"

definition select_compatible_model :: "pyval list \<Rightarrow> state \<Rightarrow> string option \<times> state" where
  "select_compatible_model available s = select_loop SUPPORTED_MODELS available s"

section \<open>ensure_env_model\<close>

text \<open>
  \<^verbatim>\<open>os.getenv\<close> reads the map \<^verbatim>\<open>os.environ\<close> (\<open>None\<close> for a name that is not set). A store
  into \<^verbatim>\<open>os.environ\<close> hands the value to the process environment, whose values are
  NUL-terminated: a value with a NUL character in it is refused with \<^verbatim>\<open>ValueError\<close>
  (embedded null byte) and the environment stays as it was. The name stored under in
  line 91 is the constant \<^verbatim>\<open>GROQ_CHAT_MODEL\<close>, which the environment accepts.
\<close>

definition environ_store :: "string \<Rightarrow> string \<Rightarrow> state \<Rightarrow> (error + unit) \<times> state" where
  "environ_store name v s =
     (if CHR 0x00 \<in> set v then (Inl ValueError, s)
      else (Inr (), s\<lparr>environ := (environ s)(name \<mapsto> v)\<rparr>))"

text \<open>
  Lines 85-92. The equal branch logs line 88 and returns. The other branch stores; an
  exception of the store leaves the function before line 92, so nothing is logged then.
\<close>

definition ensure_env_model :: "string \<Rightarrow> state \<Rightarrow> (error + unit) \<times> state" where
  "ensure_env_model model_name s =
     (let current = environ s ''GROQ_CHAT_MODEL''
      in if current = Some model_name
         then (Inr (), logger_info (LogAlreadySet current) s)
         else (case environ_store ''GROQ_CHAT_MODEL'' model_name s of
                 (Inl e, s1) \<Rightarrow> (Inl e, s1)
               | (Inr u, s1) \<Rightarrow> (Inr (), logger_info (LogUpdated model_name) s1)))"

section \<open>main and the script\<close>

text \<open>
  \<^verbatim>\<open>not api_key\<close> and \<^verbatim>\<open>not chosen\<close> hold for \<^verbatim>\<open>None\<close> and for the empty string: each test
  is a case on the optional value with the empty string sent to the same branch.
\<close>

definition main :: "(request \<Rightarrow> response) \<Rightarrow> state \<Rightarrow> (error + unit) \<times> state" where
  "main urlopen s =
     (case environ s ''GROQ_API_KEY'' of
        None \<Rightarrow> (Inl (RuntimeError KeyNotDefined), s)
      | Some api_key \<Rightarrow>
          if api_key = [] then (Inl (RuntimeError KeyNotDefined), s)
          else
            (case fetch_available_models urlopen api_key (logger_info LogFetching s) of
               (Inl e, s1) \<Rightarrow> (Inl e, s1)
             | (Inr available, s1) \<Rightarrow>
                 (case select_compatible_model available s1 of
                    (None, s2) \<Rightarrow>
                      (Inl (RuntimeError (NoneAvailable SUPPORTED_MODELS available)), s2)
                  | (Some chosen, s2) \<Rightarrow>
                      if chosen = []
                      then (Inl (RuntimeError (NoneAvailable SUPPORTED_MODELS available)), s2)
                      else
                        (case ensure_env_model chosen s2 of
                           (Inl e, s3) \<Rightarrow> (Inl e, s3)
                         | (Inr u, s3) \<Rightarrow> (Inr (), logger_info LogSelected s3)))))"

text \<open>
  The \<^verbatim>\<open>__main__\<close> block: the exit status of the process and its final state. An
  exception of \<^verbatim>\<open>main\<close> is logged and becomes \<^verbatim>\<open>SystemExit(1)\<close>; a run that returns ends
  with status 0.
\<close>

definition script :: "(request \<Rightarrow> response) \<Rightarrow> state \<Rightarrow> nat \<times> state" where
  "script urlopen s =
     (case main urlopen s of
        (Inl exc, s1) \<Rightarrow> (1, logger_exception (LogFailure exc) s1)
      | (Inr u, s1) \<Rightarrow> (0, s1))"

text \<open>
  The state in which \<open>main\<close> calls the selector after a successful fetch: the start
  state with the log records of lines 101 and 70 and the request that was sent.
\<close>

definition after_fetch :: "string \<Rightarrow> pyval list \<Rightarrow> state \<Rightarrow> state" where
  "after_fetch api_key available s =
     s\<lparr>logged := logged s @ [(INFO, LogFetching), (INFO, LogModelsFetched available)],
       requests := requests s @ [build_request api_key]\<rparr>"

section \<open>The specification's reading of the fetched sequence\<close>

text \<open>
  The specification describes the result of the fetcher in its own words: the
  identifier values of the entries of the \<^verbatim>\<open>data\<close> array that are mappings and carry a
  usable identifier, in the array's order. \<open>spec_identifiers\<close> follows these words, with
  "usable" read as Python's truth value; it is compared with \<open>extract_models\<close> below.
\<close>

fun is_mapping :: "pyval \<Rightarrow> bool" where
  "is_mapping (PDict d) = True"
| "is_mapping _ = False"

fun id_field :: "pyval \<Rightarrow> pyval" where
  "id_field (PDict d) = dict_get d ''id'' PNone"
| "id_field _ = PNone"

definition usable_entry :: "pyval \<Rightarrow> bool" where
  "usable_entry entry = (is_mapping entry \<and> truthy (id_field entry))"

definition spec_identifiers :: "pyval list \<Rightarrow> pyval list" where
  "spec_identifiers entries = map id_field (filter usable_entry entries)"

fun is_str :: "pyval \<Rightarrow> bool" where
  "is_str (PStr t) = True"
| "is_str _ = False"

section \<open>Concrete runs\<close>

text \<open>A fresh process state, and an endpoint that gives the same answer to every request.\<close>

definition s0 :: state where
  "s0 = \<lparr>environ = Map.empty, logged = [], requests = []\<rparr>"

definition with_env :: "string \<Rightarrow> string \<Rightarrow> state \<Rightarrow> state" where
  "with_env name v s = s\<lparr>environ := (environ s)(name \<mapsto> v)\<rparr>"

definition answer_with :: "response \<Rightarrow> request \<Rightarrow> response" where
  "answer_with r req = r"

section \<open>Facts about the selector's loop\<close>

lemma select_loop_fst:
  "fst (select_loop prefs available s) = find (\<lambda>m. PStr m \<in> set available) prefs"
  by (induction prefs) auto

lemma select_loop_snd:
  "snd (select_loop prefs available s) =
     (case find (\<lambda>m. PStr m \<in> set available) prefs of
        None \<Rightarrow> s
      | Some m \<Rightarrow> logger_info (LogCompatibleFound m) s)"
  by (induction prefs) auto

lemma select_loop_index:
  assumes "\<exists>m \<in> set prefs. PStr m \<in> set available"
  shows "\<exists>i < length prefs.
           fst (select_loop prefs available s) = Some (prefs ! i)
         \<and> PStr (prefs ! i) \<in> set available
         \<and> (\<forall>j < i. PStr (prefs ! j) \<notin> set available)"
proof -
  from assms obtain m where "find (\<lambda>m. PStr m \<in> set available) prefs = Some m"
    by (cases "find (\<lambda>m. PStr m \<in> set available) prefs") (auto simp: find_None_iff)
  then show ?thesis
    unfolding select_loop_fst find_Some_iff by blast
qed

lemma select_compatible_model_eq:
  "select_compatible_model available s =
     (case find (\<lambda>m. PStr m \<in> set available) SUPPORTED_MODELS of
        None \<Rightarrow> (None, s)
      | Some m \<Rightarrow> (Some m, logger_info (LogCompatibleFound m) s))"
  unfolding select_compatible_model_def
  by (simp add: prod_eq_iff select_loop_fst select_loop_snd split: option.split)

lemma supported_nonempty: "m \<in> set SUPPORTED_MODELS \<Longrightarrow> m \<noteq> []"
  by (auto simp: SUPPORTED_MODELS_def)

lemma select_Some_nonempty:
  "select_compatible_model available s = (Some m, s') \<Longrightarrow> m \<noteq> []"
  by (auto simp: select_compatible_model_eq find_Some_iff supported_nonempty
      split: option.splits)

lemma select_Some_supported:
  "select_compatible_model available s = (Some m, s') \<Longrightarrow> m \<in> set SUPPORTED_MODELS"
  by (auto simp: select_compatible_model_eq find_Some_iff split: option.splits)

lemma supported_no_nul: "m \<in> set SUPPORTED_MODELS \<Longrightarrow> CHR 0x00 \<notin> set m"
  by (auto simp: SUPPORTED_MODELS_def)

section \<open>The selector\<close>

text \<open>
  Claim C1. Whenever the available sequence holds at least one entry of the preference
  list, \<open>select_compatible_model\<close> returns the entry of \<open>SUPPORTED_MODELS\<close> with the lowest
  index in \<open>SUPPORTED_MODELS\<close> among those that occur in the available sequence. The
  result depends on the available sequence only through the set of its elements, so
  the position of a match there plays no part. The same loop run on the preference
  list A, B, C with C, B available returns B.
\<close>

theorem select_lowest_preference_index:
  assumes "\<exists>m \<in> set SUPPORTED_MODELS. PStr m \<in> set available"
  shows "(\<exists>i < length SUPPORTED_MODELS.
            fst (select_compatible_model available s) = Some (SUPPORTED_MODELS ! i)
          \<and> PStr (SUPPORTED_MODELS ! i) \<in> set available
          \<and> (\<forall>j < i. PStr (SUPPORTED_MODELS ! j) \<notin> set available))
       \<and> (\<forall>available' s'. set available' = set available \<longrightarrow>
            fst (select_compatible_model available' s') =
            fst (select_compatible_model available s))
       \<and> fst (select_loop [''A'', ''B'', ''C''] [PStr ''C'', PStr ''B''] s) = Some ''B''"
proof -
  have "\<exists>i < length SUPPORTED_MODELS.
            fst (select_compatible_model available s) = Some (SUPPORTED_MODELS ! i)
          \<and> PStr (SUPPORTED_MODELS ! i) \<in> set available
          \<and> (\<forall>j < i. PStr (SUPPORTED_MODELS ! j) \<notin> set available)"
    unfolding select_compatible_model_def using assms by (rule select_loop_index)
  moreover have "\<forall>available' s'. set available' = set available \<longrightarrow>
            fst (select_compatible_model available' s') =
            fst (select_compatible_model available s)"
    unfolding select_compatible_model_def by (simp add: select_loop_fst)
  moreover have "fst (select_loop [''A'', ''B'', ''C''] [PStr ''C'', PStr ''B''] s) = Some ''B''"
    by simp
  ultimately show ?thesis by blast
qed

theorem select_lowest_preference_index_witness:
  "fst (select_compatible_model
         [PStr ''qwen/qwen3-32b'', PStr ''llama-3.1-8b-instant''] s0)
     = Some ''llama-3.1-8b-instant''
   \<and> fst (select_compatible_model
         [PStr ''llama-3.1-8b-instant'', PStr ''qwen/qwen3-32b''] s0)
     = Some ''llama-3.1-8b-instant''"
  using select_lowest_preference_index
     [of "[PStr ''qwen/qwen3-32b'', PStr ''llama-3.1-8b-instant'']" s0]
  by (simp add: select_compatible_model_def SUPPORTED_MODELS_def)

text \<open>
  Claim C2. When no entry of the preference list occurs in the available sequence (the
  empty sequence included), \<open>select_compatible_model\<close> returns \<open>None\<close>; the function has no
  failing branch, and on a miss it logs nothing.
\<close>

theorem select_disjoint_none:
  assumes "\<forall>m \<in> set SUPPORTED_MODELS. PStr m \<notin> set available"
  shows "select_compatible_model available s = (None, s)"
proof -
  have "find (\<lambda>m. PStr m \<in> set available) SUPPORTED_MODELS = None"
    using assms by (simp add: find_None_iff)
  then show ?thesis
    by (simp add: select_compatible_model_eq)
qed

theorem select_disjoint_none_witness:
  "select_compatible_model [] s0 = (None, s0)
   \<and> select_compatible_model [PStr ''X'', PStr ''Y'', PInt 7] s0 = (None, s0)"
  using select_disjoint_none [of "[]" s0]
        select_disjoint_none [of "[PStr ''X'', PStr ''Y'', PInt 7]" s0]
  by (simp add: SUPPORTED_MODELS_def)

text \<open>
  Claim C3. A value returned by \<open>select_compatible_model\<close> is a member of
  \<open>SUPPORTED_MODELS\<close> and of the available sequence it was given.
\<close>

theorem select_member_of_both:
  assumes "fst (select_compatible_model available s) = Some m"
  shows "m \<in> set SUPPORTED_MODELS \<and> PStr m \<in> set available"
  using assms unfolding select_compatible_model_def select_loop_fst find_Some_iff
  by auto

theorem select_member_of_both_witness:
  "fst (select_compatible_model [PStr ''other'', PStr ''qwen/qwen3-32b''] s0)
     = Some ''qwen/qwen3-32b''
   \<and> ''qwen/qwen3-32b'' \<in> set SUPPORTED_MODELS
   \<and> PStr ''qwen/qwen3-32b'' \<in> set [PStr ''other'', PStr ''qwen/qwen3-32b'']"
proof -
  have h: "fst (select_compatible_model [PStr ''other'', PStr ''qwen/qwen3-32b''] s0)
     = Some ''qwen/qwen3-32b''"
    by (simp add: select_compatible_model_def SUPPORTED_MODELS_def)
  show ?thesis using h select_member_of_both [OF h] by simp
qed

section \<open>The applier\<close>

lemma ensure_env_model_returns:
  "CHR 0x00 \<notin> set model_name \<Longrightarrow>
   ensure_env_model model_name s =
     (Inr (),
      if environ s ''GROQ_CHAT_MODEL'' = Some model_name
      then logger_info (LogAlreadySet (Some model_name)) s
      else logger_info (LogUpdated model_name)
             (s\<lparr>environ := (environ s)(''GROQ_CHAT_MODEL'' \<mapsto> model_name)\<rparr>))"
  by (simp add: ensure_env_model_def environ_store_def Let_def)

lemma ensure_env_model_raises_or_logs:
  "fst (ensure_env_model model_name s) = Inl ValueError
   \<or> logged (snd (ensure_env_model model_name s)) \<noteq> logged s"
  by (simp add: ensure_env_model_def environ_store_def logger_info_def Let_def)




text \<open>
  Claim C8. When \<^verbatim>\<open>GROQ_CHAT_MODEL\<close> already holds the chosen identifier,
  \<open>ensure_env_model\<close> writes nothing: it returns, and the state it returns is the state
  it was given with one more log record, the one of line 88.
\<close>

theorem ensure_env_model_noop:
  assumes "environ s ''GROQ_CHAT_MODEL'' = Some model_name"
  shows "ensure_env_model model_name s
           = (Inr (), logger_info (LogAlreadySet (Some model_name)) s)
       \<and> environ (snd (ensure_env_model model_name s)) = environ s
       \<and> requests (snd (ensure_env_model model_name s)) = requests s
       \<and> logged (snd (ensure_env_model model_name s))
           = logged s @ [(INFO, LogAlreadySet (Some model_name))]"
  using assms by (simp add: ensure_env_model_def logger_info_def Let_def)

theorem ensure_env_model_noop_witness:
  "environ (with_env ''GROQ_CHAT_MODEL'' ''llama-3.1-8b-instant'' s0) ''GROQ_CHAT_MODEL''
     = Some ''llama-3.1-8b-instant''
   \<and> ensure_env_model ''llama-3.1-8b-instant''
         (with_env ''GROQ_CHAT_MODEL'' ''llama-3.1-8b-instant'' s0)
     = (Inr (), logger_info (LogAlreadySet (Some ''llama-3.1-8b-instant''))
                  (with_env ''GROQ_CHAT_MODEL'' ''llama-3.1-8b-instant'' s0))"
proof -
  have h: "environ (with_env ''GROQ_CHAT_MODEL'' ''llama-3.1-8b-instant'' s0)
             ''GROQ_CHAT_MODEL'' = Some ''llama-3.1-8b-instant''"
    by (simp add: with_env_def)
  show ?thesis using h ensure_env_model_noop [OF h] by simp
qed

section \<open>Facts about the fetcher\<close>

lemma fetch_requests:
  "requests (snd (fetch_available_models urlopen api_key s))
     = requests s @ [build_request api_key]"
  by (simp add: fetch_available_models_def Let_def logger_info_def logger_error_def
      split: response.split sum.split)

lemma fetch_Parsed:
  "urlopen (build_request api_key) = Parsed payload \<Longrightarrow>
   fetch_available_models urlopen api_key s =
     (case extract_models payload of
        Inl e \<Rightarrow> (Inl e, s\<lparr>requests := requests s @ [build_request api_key]\<rparr>)
      | Inr models \<Rightarrow>
          (Inr models,
           logger_info (LogModelsFetched models)
             (s\<lparr>requests := requests s @ [build_request api_key]\<rparr>)))"
  by (simp add: fetch_available_models_def Let_def)

lemma model_id_spec:
  "model_id entry = (if usable_entry entry then Some (id_field entry) else None)"
  by (cases entry) (simp_all add: usable_entry_def)

lemma map_filter_model_id: "List.map_filter model_id entries = spec_identifiers entries"
  by (induction entries) (simp_all add: model_id_spec spec_identifiers_def)

lemma extract_models_array:
  "dict_get d ''data'' (PList []) = PList entries \<Longrightarrow>
   extract_models (PDict d) = Inr (spec_identifiers entries)"
  by (simp add: map_filter_model_id)

lemma spec_identifiers_truthy: "v \<in> set (spec_identifiers entries) \<Longrightarrow> truthy v"
  by (auto simp: spec_identifiers_def usable_entry_def)

section \<open>The fetched sequence\<close>

text \<open>
  Claim C5, as the code has it. The claim as stated fails: the fetcher returns the
  \<^verbatim>\<open>id\<close> values as they were parsed, so an entry whose \<^verbatim>\<open>id\<close> is the number 42 puts the
  number 42 in the result, and a payload that is not an object, or whose \<^verbatim>\<open>data\<close> is
  \<^verbatim>\<open>null\<close>, makes the comprehension raise.
\<close>

theorem fetch_identifiers_counterexample:
  "fst (fetch_available_models
          (answer_with (Parsed (PDict [(''data'', PList [PDict [(''id'', PInt 42)]])])))
          ''gsk'' s0) = Inr [PInt 42]
   \<and> \<not> is_str (PInt 42)
   \<and> fst (fetch_available_models (answer_with (Parsed (PList []))) ''gsk'' s0)
       = Inl AttributeError
   \<and> fst (fetch_available_models
          (answer_with (Parsed (PDict [(''data'', PNone)]))) ''gsk'' s0) = Inl TypeError"
  by (simp add: fetch_available_models_def answer_with_def dict_get_def
      List.map_filter_simps Let_def)

text \<open>
  Claim C5, amended. For a payload that is an object whose \<^verbatim>\<open>data\<close> field is absent or
  an array, the fetcher returns, in the array's order, exactly the \<^verbatim>\<open>id\<close> values of the
  entries that are mappings with a true \<^verbatim>\<open>id\<close> value; the other entries are skipped
  without error. Every returned value is true in Python's sense, and the result is a
  sequence of non-empty strings whenever the \<^verbatim>\<open>id\<close> of each kept entry is a string.
\<close>

theorem fetch_returns_usable_identifiers:
  assumes "urlopen (build_request api_key) = Parsed (PDict d)"
      and "dict_get d ''data'' (PList []) = PList entries"
  shows "fetch_available_models urlopen api_key s
           = (Inr (spec_identifiers entries),
              logger_info (LogModelsFetched (spec_identifiers entries))
                (s\<lparr>requests := requests s @ [build_request api_key]\<rparr>))
       \<and> (\<forall>v \<in> set (spec_identifiers entries). truthy v)
       \<and> ((\<forall>entry \<in> set entries. usable_entry entry \<longrightarrow> is_str (id_field entry))
            \<longrightarrow> (\<forall>v \<in> set (spec_identifiers entries). is_str v \<and> v \<noteq> PStr []))"
proof -
  have "fetch_available_models urlopen api_key s
           = (Inr (spec_identifiers entries),
              logger_info (LogModelsFetched (spec_identifiers entries))
                (s\<lparr>requests := requests s @ [build_request api_key]\<rparr>))"
    using assms by (simp add: fetch_Parsed extract_models_array del: extract_models.simps)
  moreover have t: "\<forall>v \<in> set (spec_identifiers entries). truthy v"
    by (simp add: spec_identifiers_truthy)
  moreover have "(\<forall>entry \<in> set entries. usable_entry entry \<longrightarrow> is_str (id_field entry))
            \<longrightarrow> (\<forall>v \<in> set (spec_identifiers entries). is_str v \<and> v \<noteq> PStr [])"
    using t by (auto simp: spec_identifiers_def)
  ultimately show ?thesis by blast
qed

theorem fetch_returns_usable_identifiers_witness:
  "fst (fetch_available_models
     (answer_with (Parsed (PDict [(''object'', PStr ''list''),
        (''data'', PList [PDict [(''id'', PStr ''b''), (''owned_by'', PStr ''x'')],
                          PStr ''junk'',
                          PDict [(''id'', PStr '''')],
                          PDict [(''name'', PStr ''c'')],
                          PDict [(''id'', PNone)],
                          PDict [(''id'', PStr ''a'')]])])))
     ''gsk'' s0) = Inr [PStr ''b'', PStr ''a'']"
proof -
  let ?entries = "[PDict [(''id'', PStr ''b''), (''owned_by'', PStr ''x'')],
                          PStr ''junk'',
                          PDict [(''id'', PStr '''')],
                          PDict [(''name'', PStr ''c'')],
                          PDict [(''id'', PNone)],
                          PDict [(''id'', PStr ''a'')]]"
  let ?d = "[(''object'', PStr ''list''), (''data'', PList ?entries)]"
  have h1: "answer_with (Parsed (PDict ?d)) (build_request ''gsk'') = Parsed (PDict ?d)"
    by (simp add: answer_with_def)
  have h2: "dict_get ?d ''data'' (PList []) = PList ?entries"
    by (simp add: dict_get_def)
  have e: "spec_identifiers ?entries = [PStr ''b'', PStr ''a'']"
    by (simp add: spec_identifiers_def usable_entry_def dict_get_def)
  show ?thesis
    using fetch_returns_usable_identifiers
            [where urlopen = "answer_with (Parsed (PDict ?d))" and api_key = "''gsk''"
               and s = s0, OF h1 h2] e
    by simp
qed

section \<open>Facts about the entry point\<close>

lemma main_fetched:
  assumes "environ s ''GROQ_API_KEY'' = Some api_key" and "api_key \<noteq> []"
      and "urlopen (build_request api_key) = Parsed payload"
      and "extract_models payload = Inr available"
  shows "main urlopen s =
     (case select_compatible_model available
             (logger_info (LogModelsFetched available)
               ((logger_info LogFetching s)
                  \<lparr>requests := requests (logger_info LogFetching s) @ [build_request api_key]\<rparr>)) of
        (None, s2) \<Rightarrow> (Inl (RuntimeError (NoneAvailable SUPPORTED_MODELS available)), s2)
      | (Some chosen, s2) \<Rightarrow>
          (Inr (), logger_info LogSelected (snd (ensure_env_model chosen s2))))"
  using assms
  by (auto simp: main_def fetch_Parsed select_Some_nonempty ensure_env_model_returns
      dest!: select_Some_supported supported_no_nul split: prod.splits option.splits)

lemma script_fst:
  "fst (script urlopen s) = (case fst (main urlopen s) of Inl e \<Rightarrow> 1 | Inr u \<Rightarrow> 0)"
  by (cases "main urlopen s") (simp add: script_def split: sum.split)

lemma script_snd:
  "snd (script urlopen s) =
     (case fst (main urlopen s) of
        Inl e \<Rightarrow> logger_exception (LogFailure e) (snd (main urlopen s))
      | Inr u \<Rightarrow> snd (main urlopen s))"
  by (cases "main urlopen s") (simp add: script_def split: sum.split)

section \<open>The entry point\<close>

text \<open>
  Claim C6. When \<^verbatim>\<open>GROQ_API_KEY\<close> is unset, \<open>main\<close> raises the missing-credential
  \<^verbatim>\<open>RuntimeError\<close> in the state it started in, the script logs the failure and exits with
  status 1, and no request has been sent: the fetcher, which sends a request on every
  call, was not called.
\<close>

theorem main_missing_credential:
  assumes "environ s ''GROQ_API_KEY'' = None"
  shows "main urlopen s = (Inl (RuntimeError KeyNotDefined), s)
       \<and> script urlopen s = (1, logger_exception (LogFailure (RuntimeError KeyNotDefined)) s)
       \<and> requests (snd (script urlopen s)) = requests s
       \<and> (\<forall>api_key s'. requests (snd (fetch_available_models urlopen api_key s'))
                          \<noteq> requests s')"
  using assms
  by (simp add: main_def script_def logger_exception_def fetch_requests)

theorem main_missing_credential_witness:
  "environ s0 ''GROQ_API_KEY'' = None
   \<and> script (answer_with (Parsed (PDict [(''data'',
               PList [PDict [(''id'', PStr ''qwen/qwen3-32b'')]])]))) s0
      = (1, s0\<lparr>logged := [(ERROR, LogFailure (RuntimeError KeyNotDefined))]\<rparr>)"
proof -
  have h: "environ s0 ''GROQ_API_KEY'' = None" by (simp add: s0_def)
  show ?thesis
    using h main_missing_credential [OF h, of "answer_with (Parsed (PDict [(''data'',
               PList [PDict [(''id'', PStr ''qwen/qwen3-32b'')]])]))"]
    by (simp add: logger_exception_def s0_def)
qed

text \<open>
  Claim C9. A \<^verbatim>\<open>GROQ_API_KEY\<close> that is set to the empty string is treated as an unset one:
  \<open>main\<close> raises the same \<^verbatim>\<open>RuntimeError\<close> as it does once the setting is removed, in the
  state it started in, so no request is sent, and the script exits with status 1.
\<close>

theorem main_empty_credential:
  assumes "environ s ''GROQ_API_KEY'' = Some []"
  shows "main urlopen s = (Inl (RuntimeError KeyNotDefined), s)
       \<and> fst (main urlopen s)
           = fst (main urlopen (s\<lparr>environ := (environ s)(''GROQ_API_KEY'' := None)\<rparr>))
       \<and> script urlopen s = (1, logger_exception (LogFailure (RuntimeError KeyNotDefined)) s)
       \<and> requests (snd (script urlopen s)) = requests s"
  using assms
  by (simp add: main_def script_def logger_exception_def)

theorem main_empty_credential_witness:
  "environ (with_env ''GROQ_API_KEY'' [] s0) ''GROQ_API_KEY'' = Some []
   \<and> script (answer_with (Parsed (PDict [(''data'',
               PList [PDict [(''id'', PStr ''qwen/qwen3-32b'')]])])))
        (with_env ''GROQ_API_KEY'' [] s0)
      = (1, logger_exception (LogFailure (RuntimeError KeyNotDefined))
              (with_env ''GROQ_API_KEY'' [] s0))
   \<and> requests (snd (script (answer_with (Parsed (PDict [(''data'',
               PList [PDict [(''id'', PStr ''qwen/qwen3-32b'')]])])))
        (with_env ''GROQ_API_KEY'' [] s0))) = []"
proof -
  have h: "environ (with_env ''GROQ_API_KEY'' [] s0) ''GROQ_API_KEY'' = Some []"
    by (simp add: with_env_def)
  have r: "requests (with_env ''GROQ_API_KEY'' [] s0) = []"
    by (simp add: with_env_def s0_def)
  note t = main_empty_credential [OF h, of "answer_with (Parsed (PDict [(''data'',
               PList [PDict [(''id'', PStr ''qwen/qwen3-32b'')]])]))"]
  from t have a: "script (answer_with (Parsed (PDict [(''data'',
               PList [PDict [(''id'', PStr ''qwen/qwen3-32b'')]])])))
        (with_env ''GROQ_API_KEY'' [] s0)
      = (1, logger_exception (LogFailure (RuntimeError KeyNotDefined))
              (with_env ''GROQ_API_KEY'' [] s0))"
    by blast
  from t r have b: "requests (snd (script (answer_with (Parsed (PDict [(''data'',
               PList [PDict [(''id'', PStr ''qwen/qwen3-32b'')]])])))
        (with_env ''GROQ_API_KEY'' [] s0))) = []"
    by metis
  from h a b show ?thesis by blast
qed

text \<open>
  Claim C7. In a run that reaches the selector (the credential is set and the fetch
  returned the sequence \<open>available\<close>): when the selector returns \<open>None\<close>, \<open>main\<close> raises the
  \<^verbatim>\<open>RuntimeError\<close> whose message interpolates the whole of \<open>SUPPORTED_MODELS\<close> and the
  whole of \<open>available\<close>, the environment is what it was at the start and the log holds
  the records of the fetch and of the failure only, so the applier, which on every call
  logs a record or raises \<^verbatim>\<open>ValueError\<close>, was not called, and the script exits with
  status 1; when the selector returns a model, the applier runs on it and returns,
  and the script exits with status 0.
\<close>

theorem main_no_compatible_model:
  assumes "environ s ''GROQ_API_KEY'' = Some api_key" and "api_key \<noteq> []"
      and "urlopen (build_request api_key) = Parsed payload"
      and "extract_models payload = Inr available"
  shows "(fst (select_compatible_model available (after_fetch api_key available s)) = None
            \<longrightarrow> main urlopen s
                  = (Inl (RuntimeError (NoneAvailable SUPPORTED_MODELS available)),
                     after_fetch api_key available s)
              \<and> environ (snd (script urlopen s)) = environ s
              \<and> logged (snd (script urlopen s))
                  = logged s @ [(INFO, LogFetching), (INFO, LogModelsFetched available),
                       (ERROR, LogFailure
                          (RuntimeError (NoneAvailable SUPPORTED_MODELS available)))]
              \<and> fst (script urlopen s) = 1)
       \<and> (\<forall>chosen.
            fst (select_compatible_model available (after_fetch api_key available s))
              = Some chosen
            \<longrightarrow> main urlopen s
                  = (Inr (), logger_info LogSelected
                       (snd (ensure_env_model chosen
                          (logger_info (LogCompatibleFound chosen)
                             (after_fetch api_key available s)))))
              \<and> fst (ensure_env_model chosen
                          (logger_info (LogCompatibleFound chosen)
                             (after_fetch api_key available s))) = Inr ()
              \<and> fst (script urlopen s) = 0)
       \<and> (\<forall>model_name s'.
             fst (ensure_env_model model_name s') = Inl ValueError
             \<or> logged (snd (ensure_env_model model_name s')) \<noteq> logged s')"
proof -
  have a: "logger_info (LogModelsFetched available)
               ((logger_info LogFetching s)
                  \<lparr>requests := requests (logger_info LogFetching s) @ [build_request api_key]\<rparr>)
           = after_fetch api_key available s"
    by (simp add: after_fetch_def logger_info_def)
  note m = main_fetched [where urlopen = urlopen and api_key = api_key, OF assms, unfolded a]
  have none: "fst (select_compatible_model available (after_fetch api_key available s)) = None
            \<longrightarrow> main urlopen s
                  = (Inl (RuntimeError (NoneAvailable SUPPORTED_MODELS available)),
                     after_fetch api_key available s)
              \<and> environ (snd (script urlopen s)) = environ s
              \<and> logged (snd (script urlopen s))
                  = logged s @ [(INFO, LogFetching), (INFO, LogModelsFetched available),
                       (ERROR, LogFailure
                          (RuntimeError (NoneAvailable SUPPORTED_MODELS available)))]
              \<and> fst (script urlopen s) = 1"
    by (auto simp: m script_fst script_snd select_compatible_model_eq logger_exception_def
        after_fetch_def split: option.splits)
  have some: "\<forall>chosen.
            fst (select_compatible_model available (after_fetch api_key available s))
              = Some chosen
            \<longrightarrow> main urlopen s
                  = (Inr (), logger_info LogSelected
                       (snd (ensure_env_model chosen
                          (logger_info (LogCompatibleFound chosen)
                             (after_fetch api_key available s)))))
              \<and> fst (ensure_env_model chosen
                          (logger_info (LogCompatibleFound chosen)
                             (after_fetch api_key available s))) = Inr ()
              \<and> fst (script urlopen s) = 0"
  proof (intro allI impI)
    fix chosen
    assume c: "fst (select_compatible_model available (after_fetch api_key available s))
                 = Some chosen"
    then have f: "find (\<lambda>m. PStr m \<in> set available) SUPPORTED_MODELS = Some chosen"
      by (simp add: select_compatible_model_eq split: option.splits)
    then have "chosen \<in> set SUPPORTED_MODELS"
      by (auto simp: find_Some_iff)
    then have r: "fst (ensure_env_model chosen
                          (logger_info (LogCompatibleFound chosen)
                             (after_fetch api_key available s))) = Inr ()"
      by (simp add: ensure_env_model_returns supported_no_nul)
    have "main urlopen s
            = (Inr (), logger_info LogSelected
                 (snd (ensure_env_model chosen
                    (logger_info (LogCompatibleFound chosen)
                       (after_fetch api_key available s)))))"
      using f by (simp add: m select_compatible_model_eq)
    moreover from this have "fst (script urlopen s) = 0"
      by (simp add: script_fst)
    ultimately show "main urlopen s
                  = (Inr (), logger_info LogSelected
                       (snd (ensure_env_model chosen
                          (logger_info (LogCompatibleFound chosen)
                             (after_fetch api_key available s)))))
              \<and> fst (ensure_env_model chosen
                          (logger_info (LogCompatibleFound chosen)
                             (after_fetch api_key available s))) = Inr ()
              \<and> fst (script urlopen s) = 0"
      using r by blast
  qed
  have "\<forall>model_name s'.
             fst (ensure_env_model model_name s') = Inl ValueError
             \<or> logged (snd (ensure_env_model model_name s')) \<noteq> logged s'"
    by (simp add: ensure_env_model_raises_or_logs)
  with none some show ?thesis by blast
qed

theorem main_no_compatible_model_witness:
  "fst (script (answer_with (Parsed (PDict [(''data'',
          PList [PDict [(''id'', PStr ''X'')], PDict [(''id'', PStr ''Y'')]])])))
        (with_env ''GROQ_API_KEY'' ''gsk'' s0)) = 1
   \<and> fst (main (answer_with (Parsed (PDict [(''data'',
          PList [PDict [(''id'', PStr ''X'')], PDict [(''id'', PStr ''Y'')]])])))
        (with_env ''GROQ_API_KEY'' ''gsk'' s0))
      = Inl (RuntimeError (NoneAvailable SUPPORTED_MODELS [PStr ''X'', PStr ''Y'']))
   \<and> fst (script (answer_with (Parsed (PDict [(''data'',
          PList [PDict [(''id'', PStr ''X'')], PDict [(''id'', PStr ''qwen/qwen3-32b'')]])])))
        (with_env ''GROQ_API_KEY'' ''gsk'' s0)) = 0"
proof -
  let ?s = "with_env ''GROQ_API_KEY'' ''gsk'' s0"
  let ?p1 = "PDict [(''data'',
          PList [PDict [(''id'', PStr ''X'')], PDict [(''id'', PStr ''Y'')]])]"
  let ?p2 = "PDict [(''data'',
          PList [PDict [(''id'', PStr ''X'')], PDict [(''id'', PStr ''qwen/qwen3-32b'')]])]"
  have k: "environ ?s ''GROQ_API_KEY'' = Some ''gsk''" and n: "''gsk'' \<noteq> []"
    by (simp_all add: with_env_def)
  have u1: "answer_with (Parsed ?p1) (build_request ''gsk'') = Parsed ?p1"
    and u2: "answer_with (Parsed ?p2) (build_request ''gsk'') = Parsed ?p2"
    by (simp_all add: answer_with_def)
  have x1: "extract_models ?p1 = Inr [PStr ''X'', PStr ''Y'']"
    and x2: "extract_models ?p2 = Inr [PStr ''X'', PStr ''qwen/qwen3-32b'']"
    by (simp_all add: dict_get_def List.map_filter_simps)
  have c1: "fst (select_compatible_model [PStr ''X'', PStr ''Y'']
                  (after_fetch ''gsk'' [PStr ''X'', PStr ''Y''] ?s)) = None"
    and c2: "fst (select_compatible_model [PStr ''X'', PStr ''qwen/qwen3-32b'']
                  (after_fetch ''gsk'' [PStr ''X'', PStr ''qwen/qwen3-32b''] ?s))
               = Some ''qwen/qwen3-32b''"
    by (simp_all add: select_compatible_model_def SUPPORTED_MODELS_def)
  note t1 = main_no_compatible_model
      [where urlopen = "answer_with (Parsed ?p1)" and api_key = "''gsk''", OF k n u1 x1]
  note t2 = main_no_compatible_model
      [where urlopen = "answer_with (Parsed ?p2)" and api_key = "''gsk''", OF k n u2 x2]
  from t1 c1 have "fst (script (answer_with (Parsed ?p1)) ?s) = 1"
    and "fst (main (answer_with (Parsed ?p1)) ?s)
           = Inl (RuntimeError (NoneAvailable SUPPORTED_MODELS [PStr ''X'', PStr ''Y'']))"
    by simp_all
  moreover from t2 c2 have "fst (script (answer_with (Parsed ?p2)) ?s) = 0"
    by blast
  ultimately show ?thesis by blast
qed

text \<open>
  Claim C10. When the parsed payload is an object without a \<^verbatim>\<open>data\<close> field, the fetcher
  returns the empty sequence (and logs it); a run with a credential then fails in
  \<open>main\<close> with the no-compatible-model \<^verbatim>\<open>RuntimeError\<close>, not with a parse error, and exits
  with status 1.
\<close>

theorem fetch_without_data_field:
  assumes "environ s ''GROQ_API_KEY'' = Some api_key" and "api_key \<noteq> []"
      and "urlopen (build_request api_key) = Parsed (PDict d)"
      and "map_of d ''data'' = None"
  shows "(\<forall>s'. fetch_available_models urlopen api_key s'
            = (Inr [], logger_info (LogModelsFetched [])
                         (s'\<lparr>requests := requests s' @ [build_request api_key]\<rparr>)))
       \<and> fst (main urlopen s) = Inl (RuntimeError (NoneAvailable SUPPORTED_MODELS []))
       \<and> fst (script urlopen s) = 1"
proof -
  have x: "extract_models (PDict d) = Inr []"
    using assms(4) by (simp add: dict_get_def List.map_filter_simps)
  have f: "\<forall>s'. fetch_available_models urlopen api_key s'
            = (Inr [], logger_info (LogModelsFetched [])
                         (s'\<lparr>requests := requests s' @ [build_request api_key]\<rparr>))"
    using assms(3) x by (simp add: fetch_Parsed del: extract_models.simps)
  have m: "fst (main urlopen s) = Inl (RuntimeError (NoneAvailable SUPPORTED_MODELS []))"
    by (simp add: select_compatible_model_eq SUPPORTED_MODELS_def
        main_fetched [where urlopen = urlopen and api_key = api_key, OF assms(1,2,3) x])
  have "fst (script urlopen s) = 1"
    using m by (simp add: script_fst)
  with f m show ?thesis by blast
qed

theorem fetch_without_data_field_witness:
  "fst (fetch_available_models (answer_with (Parsed (PDict [(''object'', PStr ''list'')])))
          ''gsk'' s0) = Inr []
   \<and> fst (main (answer_with (Parsed (PDict [(''object'', PStr ''list'')])))
        (with_env ''GROQ_API_KEY'' ''gsk'' s0))
      = Inl (RuntimeError (NoneAvailable SUPPORTED_MODELS []))
   \<and> fst (script (answer_with (Parsed (PDict [(''object'', PStr ''list'')])))
        (with_env ''GROQ_API_KEY'' ''gsk'' s0)) = 1"
proof -
  let ?s = "with_env ''GROQ_API_KEY'' ''gsk'' s0"
  let ?d = "[(''object'', PStr ''list'')]"
  have k: "environ ?s ''GROQ_API_KEY'' = Some ''gsk''" and n: "''gsk'' \<noteq> []"
    by (simp_all add: with_env_def)
  have u: "answer_with (Parsed (PDict ?d)) (build_request ''gsk'') = Parsed (PDict ?d)"
    by (simp add: answer_with_def)
  have m: "map_of ?d ''data'' = None"
    by simp
  note t = fetch_without_data_field
      [where urlopen = "answer_with (Parsed (PDict ?d))" and api_key = "''gsk''",
       OF k n u m]
  from t have "fst (fetch_available_models (answer_with (Parsed (PDict ?d))) ''gsk'' s0)
                 = Inr []"
    by simp
  with t show ?thesis by blast
qed

end
